theory Spec2Isabelle
  imports Main "HOL-Library.Monad_Syntax"
begin

section \<open>Contract layer\<close>

text \<open>
  The interfaces of \<^verbatim>\<open>models/interface/response.interface.ts\<close> and
  \<^verbatim>\<open>models/interface/auth.interface.ts\<close>, one record each. A property written
  \<^verbatim>\<open>k?: T\<close> is a field of type \<open>T option\<close>, where \<open>None\<close> stands for the property
  being absent (or \<^verbatim>\<open>undefined\<close>); a property written \<^verbatim>\<open>k: T\<close> is a field of type \<open>T\<close>.
  Several interfaces share property names, so fields are written with their record's
  name in front (\<open>SuccessResponse.data\<close>, \<open>FailResponse.data\<close>).
\<close>

text \<open>
  The type \<^verbatim>\<open>number\<close> of TypeScript is left opaque: the program never computes on a
  number. The type \<^verbatim>\<open>null\<close> has the one value \<^verbatim>\<open>null\<close>. The type \<^verbatim>\<open>any\<close> holds every
  value there is at run time; an object is a map from its property names to their
  values, and \<open>Object Map.empty\<close> is the empty object \<^verbatim>\<open>{}\<close>.
\<close>

typedecl number

datatype null = null

datatype any =
  Undefined | Null | Boolean bool | Number number | String string | Array "any list"
  | Object "string \<Rightarrow> any option"

subsection \<open>response.interface.ts\<close>

record 'dataType SuccessResponse =
  data :: 'dataType
  message :: "string option"
  status :: "number option"

record ErrorResponse =
  error :: string
  message :: string
  status :: number
  details :: "any option"

record 'dataType FailResponse =
  status :: "number option"
  error :: "string option"
  message :: "string option"
  data :: "'dataType option"

record PaginationResponse =
  page :: "number option"
  size :: "number option"
  total :: "number option"
  totalPages :: "number option"

subsection \<open>auth.interface.ts\<close>

text \<open>
  The interface \<^verbatim>\<open>User\<close> is imported from \<^verbatim>\<open>./user.interface\<close>, which is not among the
  sources: it is the type parameter of \<open>LoginResponse\<close>.
\<close>

record 'User LoginResponse =
  access_token :: string
  refresh_token :: string
  token_type :: "string option"
  user :: "'User option"

record SentEmailResponse =
  email :: "string option"
  message :: "string option"
  token :: "string option"

text \<open>The property \<^verbatim>\<open>id\<close> is the field \<open>id'\<close>: \<open>id\<close> is the identity function of HOL.\<close>

record RegisterReponse =
  id' :: "number option"
  email :: "string option"
  full_name :: "string option"
  message :: "string option"
  is_email_confirmed :: "bool option"

subsection \<open>Objects as instances of an interface\<close>

text \<open>
  An interface is a type of the compiler only; an object is an instance of it by its
  shape. \<open>as_I\<close> reads a value as an instance of the interface \<open>I\<close>: the record of its
  properties when the value is an object that has every property the interface requires,
  each with a value of the declared type, and \<open>None\<close> otherwise. A property the interface
  does not name is ignored.

  \<^item> \<open>required T obj k\<close> is the property \<^verbatim>\<open>k: T\<close>: it must be there.
  \<^item> \<open>optional T obj k\<close> is the property \<^verbatim>\<open>k?: T\<close>: it may be missing or \<^verbatim>\<open>undefined\<close>,
    which gives the field \<open>None\<close>; when it has a value, the value must be a \<^verbatim>\<open>T\<close>.
\<close>

definition as_number :: "any \<Rightarrow> number option" where
  "as_number v = (case v of Number n \<Rightarrow> Some n | _ \<Rightarrow> None)"

definition as_string :: "any \<Rightarrow> string option" where
  "as_string v = (case v of String s \<Rightarrow> Some s | _ \<Rightarrow> None)"

definition required ::
  "(any \<Rightarrow> 'a option) \<Rightarrow> (string \<Rightarrow> any option) \<Rightarrow> string \<Rightarrow> 'a option" where
  "required T obj k = (case obj k of None \<Rightarrow> None | Some v \<Rightarrow> T v)"

definition optional ::
  "(any \<Rightarrow> 'a option) \<Rightarrow> (string \<Rightarrow> any option) \<Rightarrow> string \<Rightarrow> 'a option option" where
  "optional T obj k =
    (case obj k of
      None \<Rightarrow> Some None
    | Some Undefined \<Rightarrow> Some None
    | Some v \<Rightarrow> map_option Some (T v))"

definition as_SuccessResponse ::
  "(any \<Rightarrow> 'dataType option) \<Rightarrow> any \<Rightarrow> 'dataType SuccessResponse option" where
  "as_SuccessResponse dataType v =
    (case v of
      Object obj \<Rightarrow> do {
        data \<leftarrow> required dataType obj ''data'';
        message \<leftarrow> optional as_string obj ''message'';
        status \<leftarrow> optional as_number obj ''status'';
        Some \<lparr>SuccessResponse.data = data, SuccessResponse.message = message,
          SuccessResponse.status = status\<rparr>
      }
    | _ \<Rightarrow> None)"

definition as_FailResponse ::
  "(any \<Rightarrow> 'dataType option) \<Rightarrow> any \<Rightarrow> 'dataType FailResponse option" where
  "as_FailResponse dataType v =
    (case v of
      Object obj \<Rightarrow> do {
        status \<leftarrow> optional as_number obj ''status'';
        error \<leftarrow> optional as_string obj ''error'';
        message \<leftarrow> optional as_string obj ''message'';
        data \<leftarrow> optional dataType obj ''data'';
        Some \<lparr>FailResponse.status = status, FailResponse.error = error,
          FailResponse.message = message, FailResponse.data = data\<rparr>
      }
    | _ \<Rightarrow> None)"

definition as_PaginationResponse :: "any \<Rightarrow> PaginationResponse option" where
  "as_PaginationResponse v =
    (case v of
      Object obj \<Rightarrow> do {
        page \<leftarrow> optional as_number obj ''page'';
        size \<leftarrow> optional as_number obj ''size'';
        total \<leftarrow> optional as_number obj ''total'';
        totalPages \<leftarrow> optional as_number obj ''totalPages'';
        Some \<lparr>PaginationResponse.page = page, PaginationResponse.size = size,
          PaginationResponse.total = total, PaginationResponse.totalPages = totalPages\<rparr>
      }
    | _ \<Rightarrow> None)"

section \<open>The transport\<close>

text \<open>
  Modelled from the spec: the interface of the transport \<^verbatim>\<open>axiosClient\<close>. The client
  imports it from \<^verbatim>\<open>@/core/services/axios-client\<close>, which is not among the sources, so
  every operation below takes the transport as a parameter and nothing is assumed of what
  it does. Of its interface the client uses two methods, \<^verbatim>\<open>get<T>(url, config)\<close> and
  \<^verbatim>\<open>post<T>(url, data?)\<close>, each returning a promise of a response of type \<^verbatim>\<open>T\<close>.

  \<^item> A promise is modelled by the way it ends: it stays pending for ever, it is fulfilled
    with a value, or it is rejected with a reason.
  \<^item> The only configuration the client ever passes to \<^verbatim>\<open>get\<close> is \<^verbatim>\<open>{ params }\<close>, an object
    with the one property \<^verbatim>\<open>params\<close>: the query parameters.
  \<^item> The optional second argument of \<^verbatim>\<open>post\<close> is an \<open>option\<close>: \<open>None\<close> when the call
    passes no body.
  \<^item> Calling a method is an effect (a request goes out, the transport may change), so a
    method takes the state \<open>'s\<close> of the world before the call and returns the state after
    it, next to the promise.
\<close>

datatype ('t, 'e) Promise = Pending | Fulfilled 't | Rejected 'e

record 'q AxiosRequestConfig =
  params :: 'q

record ('q, 'd, 't, 'e, 's) AxiosInstance =
  get :: "string \<Rightarrow> 'q AxiosRequestConfig \<Rightarrow> 's \<Rightarrow> ('t, 'e) Promise \<times> 's"
  post :: "string \<Rightarrow> 'd option \<Rightarrow> 's \<Rightarrow> ('t, 'e) Promise \<times> 's"

section \<open>Auth client\<close>

text \<open>\<^verbatim>\<open>core/services/auth.service.ts\<close>: the six path constants.\<close>

definition API_LOGIN_URL :: string where
  "API_LOGIN_URL = ''/auth/login''"

definition API_LOGOUT_URL :: string where
  "API_LOGOUT_URL = ''/auth/logout''"

definition API_REGISTER_URL :: string where
  "API_REGISTER_URL = ''/auth/register''"

definition API_SENT_EMAIL_URL :: string where
  "API_SENT_EMAIL_URL = ''/auth/email/verify''"

definition API_RESET_PASS_URL :: string where
  "API_RESET_PASS_URL = ''/auth/email/reset-password''"

definition API_LOGIN_GOOGLE :: string where
  "API_LOGIN_GOOGLE = ''/auth/google/callback''"

text \<open>
  The types of the arguments written in place in the source: \<^verbatim>\<open>{ email?: string }\<close> of
  \<^verbatim>\<open>resetPassword\<close>, \<^verbatim>\<open>{ email: string }\<close> of \<^verbatim>\<open>sentEmailAuth\<close> and \<^verbatim>\<open>{ code: string }\<close> of
  \<^verbatim>\<open>loginWithGG\<close>.
\<close>

record resetPassword_params =
  email :: "string option"

record sentEmailAuth_params =
  email :: string

record loginWithGG_params =
  code :: string

text \<open>
  Which objects a caller may pass to the two operations that take an email, by the rules
  for the instances of an interface: \<^verbatim>\<open>email?\<close> is optional, \<^verbatim>\<open>email\<close> is required.
\<close>

definition as_resetPassword_params :: "any \<Rightarrow> resetPassword_params option" where
  "as_resetPassword_params v =
    (case v of
      Object obj \<Rightarrow> do {
        email \<leftarrow> optional as_string obj ''email'';
        Some \<lparr>resetPassword_params.email = email\<rparr>
      }
    | _ \<Rightarrow> None)"

definition as_sentEmailAuth_params :: "any \<Rightarrow> sentEmailAuth_params option" where
  "as_sentEmailAuth_params v =
    (case v of
      Object obj \<Rightarrow> do {
        email \<leftarrow> required as_string obj ''email'';
        Some \<lparr>sentEmailAuth_params.email = email\<rparr>
      }
    | _ \<Rightarrow> None)"

text \<open>
  The six operations of \<^verbatim>\<open>authApi\<close>. Each is an arrow function of the source and a
  \<open>\<lambda>\<close> here, after the transport. \<^verbatim>\<open>LoginType\<close> and \<^verbatim>\<open>RegisterType\<close> come from
  \<^verbatim>\<open>@/models/types\<close>, which is not among the sources: they are the type parameters \<open>'LoginType\<close>
  and \<open>'RegisterType\<close>. The type argument \<^verbatim>\<open>T\<close> the source gives to \<^verbatim>\<open>get\<close> or \<^verbatim>\<open>post\<close> is the
  type of the value of the promise.
\<close>

definition login ::
  "('q, 'LoginType, 'User LoginResponse SuccessResponse, 'e, 's) AxiosInstance \<Rightarrow>
    'LoginType \<Rightarrow> 's \<Rightarrow> ('User LoginResponse SuccessResponse, 'e) Promise \<times> 's" where
  "login axiosClient = (\<lambda>params. post axiosClient API_LOGIN_URL (Some params))"

definition register ::
  "('q, 'RegisterType, RegisterReponse SuccessResponse, 'e, 's) AxiosInstance \<Rightarrow>
    'RegisterType \<Rightarrow> 's \<Rightarrow> (RegisterReponse SuccessResponse, 'e) Promise \<times> 's" where
  "register axiosClient = (\<lambda>params. post axiosClient API_REGISTER_URL (Some params))"

definition resetPassword ::
  "(resetPassword_params, 'd, SentEmailResponse SuccessResponse, 'e, 's) AxiosInstance \<Rightarrow>
    resetPassword_params \<Rightarrow> 's \<Rightarrow> (SentEmailResponse SuccessResponse, 'e) Promise \<times> 's" where
  "resetPassword axiosClient =
    (\<lambda>params. get axiosClient API_RESET_PASS_URL \<lparr>params = params\<rparr>)"

definition sentEmailAuth ::
  "(sentEmailAuth_params, 'd, SentEmailResponse SuccessResponse, 'e, 's) AxiosInstance \<Rightarrow>
    sentEmailAuth_params \<Rightarrow> 's \<Rightarrow> (SentEmailResponse SuccessResponse, 'e) Promise \<times> 's" where
  "sentEmailAuth axiosClient =
    (\<lambda>params. get axiosClient API_SENT_EMAIL_URL \<lparr>params = params\<rparr>)"

definition logout ::
  "('q, 'd, null SuccessResponse, 'e, 's) AxiosInstance \<Rightarrow>
    's \<Rightarrow> (null SuccessResponse, 'e) Promise \<times> 's" where
  "logout axiosClient = post axiosClient API_LOGOUT_URL None"

definition loginWithGG ::
  "(loginWithGG_params, 'd, 'User LoginResponse SuccessResponse, 'e, 's) AxiosInstance \<Rightarrow>
    loginWithGG_params \<Rightarrow> 's \<Rightarrow> ('User LoginResponse SuccessResponse, 'e) Promise \<times> 's" where
  "loginWithGG axiosClient =
    (\<lambda>params. get axiosClient API_LOGIN_GOOGLE \<lparr>params = params\<rparr>)"

section \<open>Observing the requests\<close>

text \<open>
  A request, as the transport is asked for it: the method, the path and what travels with
  it (the configuration of a \<^verbatim>\<open>get\<close>, the optional body of a \<^verbatim>\<open>post\<close>).

  \<open>traced\<close> wraps any transport into one that behaves like it and also writes every call
  it receives at the end of a log, kept next to the transport's own state. What an
  operation issues is what it adds to the log.
\<close>

datatype ('q, 'd) request = GET string "'q AxiosRequestConfig" | POST string "'d option"

definition traced ::
  "('q, 'd, 't, 'e, 's) AxiosInstance \<Rightarrow>
    ('q, 'd, 't, 'e, 's \<times> ('q, 'd) request list) AxiosInstance" where
  "traced axiosClient =
    \<lparr>get = (\<lambda>url config (s, log).
        case get axiosClient url config s of
          (promise, s') \<Rightarrow> (promise, (s', log @ [GET url config]))),
     post = (\<lambda>url body (s, log).
        case post axiosClient url body s of
          (promise, s') \<Rightarrow> (promise, (s', log @ [POST url body])))\<rparr>"

definition issued ::
  "('s \<times> ('q, 'd) request list \<Rightarrow> 'r \<times> 's \<times> ('q, 'd) request list) \<Rightarrow>
    's \<times> ('q, 'd) request list \<Rightarrow> ('q, 'd) request list" where
  "issued run start = drop (length (snd start)) (snd (snd (run start)))"

text \<open>
  Two transports to run the operations on: one whose every promise is fulfilled with the
  response \<open>r\<close>, and one whose every promise is rejected with the reason \<open>e\<close>, as when
  the network is down. Neither has a state of its own to change.
\<close>

definition fulfilling :: "'t \<Rightarrow> ('q, 'd, 't, 'e, 's) AxiosInstance" where
  "fulfilling r =
    \<lparr>get = (\<lambda>url config s. (Fulfilled r, s)), post = (\<lambda>url body s. (Fulfilled r, s))\<rparr>"

definition rejecting :: "'e \<Rightarrow> ('q, 'd, 't, 'e, 's) AxiosInstance" where
  "rejecting e =
    \<lparr>get = (\<lambda>url config s. (Rejected e, s)), post = (\<lambda>url body s. (Rejected e, s))\<rparr>"

section \<open>What a traced transport records\<close>

lemma get_traced:
  "get (traced ax) u cfg (s, log) =
    (fst (get ax u cfg s), snd (get ax u cfg s), log @ [GET u cfg])"
  by (simp add: traced_def split: prod.split)

lemma post_traced:
  "post (traced ax) u b (s, log) =
    (fst (post ax u b s), snd (post ax u b s), log @ [POST u b])"
  by (simp add: traced_def split: prod.split)

lemma issued_get: "issued (get (traced ax) u cfg) w = [GET u cfg]"
  by (cases w) (simp add: issued_def get_traced)

lemma issued_post: "issued (post (traced ax) u b) w = [POST u b]"
  by (cases w) (simp add: issued_def post_traced)

text \<open>The log only grows: what was in it stays, what is issued comes after.\<close>

lemma log_after_get:
  "snd (snd (get (traced ax) u cfg w)) = snd w @ issued (get (traced ax) u cfg) w"
  by (cases w) (simp add: issued_def get_traced)

lemma log_after_post:
  "snd (snd (post (traced ax) u b w)) = snd w @ issued (post (traced ax) u b) w"
  by (cases w) (simp add: issued_def post_traced)

text \<open>The two transports answer every call the same way and leave the state as it is.\<close>

lemma get_fulfilling: "get (fulfilling r) u cfg s = (Fulfilled r, s)"
  by (simp add: fulfilling_def)

lemma post_fulfilling: "post (fulfilling r) u b s = (Fulfilled r, s)"
  by (simp add: fulfilling_def)

lemma get_rejecting: "get (rejecting e) u cfg s = (Rejected e, s)"
  by (simp add: rejecting_def)

lemma post_rejecting: "post (rejecting e) u b s = (Rejected e, s)"
  by (simp add: rejecting_def)

section \<open>The six operations, one by one\<close>

text \<open>What each operation issues, on any transport and from any state and log.\<close>

lemma issued_login: "issued (login (traced ax) c) w = [POST API_LOGIN_URL (Some c)]"
  unfolding login_def by (rule issued_post)

lemma issued_register: "issued (register (traced ax) r) w = [POST API_REGISTER_URL (Some r)]"
  unfolding register_def by (rule issued_post)

lemma issued_resetPassword:
  "issued (resetPassword (traced ax) p) w = [GET API_RESET_PASS_URL \<lparr>params = p\<rparr>]"
  unfolding resetPassword_def by (rule issued_get)

lemma issued_sentEmailAuth:
  "issued (sentEmailAuth (traced ax) p) w = [GET API_SENT_EMAIL_URL \<lparr>params = p\<rparr>]"
  unfolding sentEmailAuth_def by (rule issued_get)

lemma issued_logout: "issued (logout (traced ax)) w = [POST API_LOGOUT_URL None]"
  unfolding logout_def by (rule issued_post)

lemma issued_loginWithGG:
  "issued (loginWithGG (traced ax) p) w = [GET API_LOGIN_GOOGLE \<lparr>params = p\<rparr>]"
  unfolding loginWithGG_def by (rule issued_get)

text \<open>
  What each operation returns when the transport's one call returns the promise \<open>pr\<close> and
  the state \<open>s'\<close>: that promise, that state, and the log with the one request added.
\<close>

lemma login_traced:
  assumes "post ax API_LOGIN_URL (Some c) s = (pr, s')"
  shows "login (traced ax) c (s, log) = (pr, s', log @ [POST API_LOGIN_URL (Some c)])"
  using assms by (simp add: login_def post_traced)

lemma register_traced:
  assumes "post ax API_REGISTER_URL (Some r) s = (pr, s')"
  shows "register (traced ax) r (s, log) = (pr, s', log @ [POST API_REGISTER_URL (Some r)])"
  using assms by (simp add: register_def post_traced)

lemma resetPassword_traced:
  assumes "get ax API_RESET_PASS_URL \<lparr>params = p\<rparr> s = (pr, s')"
  shows "resetPassword (traced ax) p (s, log) =
    (pr, s', log @ [GET API_RESET_PASS_URL \<lparr>params = p\<rparr>])"
  using assms by (simp add: resetPassword_def get_traced)

lemma sentEmailAuth_traced:
  assumes "get ax API_SENT_EMAIL_URL \<lparr>params = p\<rparr> s = (pr, s')"
  shows "sentEmailAuth (traced ax) p (s, log) =
    (pr, s', log @ [GET API_SENT_EMAIL_URL \<lparr>params = p\<rparr>])"
  using assms by (simp add: sentEmailAuth_def get_traced)

lemma logout_traced:
  assumes "post ax API_LOGOUT_URL None s = (pr, s')"
  shows "logout (traced ax) (s, log) = (pr, s', log @ [POST API_LOGOUT_URL None])"
  using assms by (simp add: logout_def post_traced)

lemma loginWithGG_traced:
  assumes "get ax API_LOGIN_GOOGLE \<lparr>params = p\<rparr> s = (pr, s')"
  shows "loginWithGG (traced ax) p (s, log) =
    (pr, s', log @ [GET API_LOGIN_GOOGLE \<lparr>params = p\<rparr>])"
  using assms by (simp add: loginWithGG_def get_traced)

section \<open>Requests\<close>

text \<open>
  C1. Whatever the transport, its state and the log so far, each of the six operations
  issues exactly one request: the log after the call is the log before it followed by
  that one request. The request is the one of the table of endpoints: \<^verbatim>\<open>POST /auth/login\<close>,
  \<^verbatim>\<open>POST /auth/register\<close>, \<^verbatim>\<open>GET /auth/email/reset-password\<close>, \<^verbatim>\<open>GET /auth/email/verify\<close>,
  \<^verbatim>\<open>POST /auth/logout\<close> and \<^verbatim>\<open>GET /auth/google/callback\<close>.
\<close>

theorem one_request_per_operation:
  "snd (snd (login (traced ax1) c (s1, log1))) = log1 @ [POST ''/auth/login'' (Some c)] \<and>
   snd (snd (register (traced ax2) r (s2, log2))) =
     log2 @ [POST ''/auth/register'' (Some r)] \<and>
   snd (snd (resetPassword (traced ax3) p3 (s3, log3))) =
     log3 @ [GET ''/auth/email/reset-password'' \<lparr>params = p3\<rparr>] \<and>
   snd (snd (sentEmailAuth (traced ax4) p4 (s4, log4))) =
     log4 @ [GET ''/auth/email/verify'' \<lparr>params = p4\<rparr>] \<and>
   snd (snd (logout (traced ax5) (s5, log5))) = log5 @ [POST ''/auth/logout'' None] \<and>
   snd (snd (loginWithGG (traced ax6) p6 (s6, log6))) =
     log6 @ [GET ''/auth/google/callback'' \<lparr>params = p6\<rparr>]"
proof (intro conjI)
  show "snd (snd (login (traced ax1) c (s1, log1))) = log1 @ [POST ''/auth/login'' (Some c)]"
    using login_traced [OF prod.collapse [symmetric], of ax1 c s1 log1]
    by (simp add: API_LOGIN_URL_def)
  show "snd (snd (register (traced ax2) r (s2, log2))) =
      log2 @ [POST ''/auth/register'' (Some r)]"
    using register_traced [OF prod.collapse [symmetric], of ax2 r s2 log2]
    by (simp add: API_REGISTER_URL_def)
  show "snd (snd (resetPassword (traced ax3) p3 (s3, log3))) =
      log3 @ [GET ''/auth/email/reset-password'' \<lparr>params = p3\<rparr>]"
    using resetPassword_traced [OF prod.collapse [symmetric], of ax3 p3 s3 log3]
    by (simp add: API_RESET_PASS_URL_def)
  show "snd (snd (sentEmailAuth (traced ax4) p4 (s4, log4))) =
      log4 @ [GET ''/auth/email/verify'' \<lparr>params = p4\<rparr>]"
    using sentEmailAuth_traced [OF prod.collapse [symmetric], of ax4 p4 s4 log4]
    by (simp add: API_SENT_EMAIL_URL_def)
  show "snd (snd (logout (traced ax5) (s5, log5))) = log5 @ [POST ''/auth/logout'' None]"
    using logout_traced [OF prod.collapse [symmetric], of ax5 s5 log5]
    by (simp add: API_LOGOUT_URL_def)
  show "snd (snd (loginWithGG (traced ax6) p6 (s6, log6))) =
      log6 @ [GET ''/auth/google/callback'' \<lparr>params = p6\<rparr>]"
    using loginWithGG_traced [OF prod.collapse [symmetric], of ax6 p6 s6 log6]
    by (simp add: API_LOGIN_GOOGLE_def)
qed

text \<open>
  C2. For every email \<open>e\<close>, \<^verbatim>\<open>resetPassword({email: e})\<close> issues a \<^verbatim>\<open>GET\<close> to the
  reset-password path and \<^verbatim>\<open>sentEmailAuth({email: e})\<close> a \<^verbatim>\<open>GET\<close> to the email-verification
  path, each with \<open>e\<close> as the query parameter \<^verbatim>\<open>email\<close>; the two paths are fixed and differ.
\<close>

theorem email_query_parameter:
  "issued (resetPassword (traced ax1) \<lparr>resetPassword_params.email = Some e\<rparr>) w1 =
     [GET API_RESET_PASS_URL \<lparr>params = \<lparr>resetPassword_params.email = Some e\<rparr>\<rparr>] \<and>
   issued (sentEmailAuth (traced ax2) \<lparr>sentEmailAuth_params.email = e\<rparr>) w2 =
     [GET API_SENT_EMAIL_URL \<lparr>params = \<lparr>sentEmailAuth_params.email = e\<rparr>\<rparr>] \<and>
   API_RESET_PASS_URL = ''/auth/email/reset-password'' \<and>
   API_SENT_EMAIL_URL = ''/auth/email/verify'' \<and>
   API_RESET_PASS_URL \<noteq> API_SENT_EMAIL_URL"
proof -
  have "API_RESET_PASS_URL \<noteq> API_SENT_EMAIL_URL"
    by (simp add: API_RESET_PASS_URL_def API_SENT_EMAIL_URL_def)
  then show ?thesis
    by (simp add: issued_resetPassword issued_sentEmailAuth)
      (simp add: API_RESET_PASS_URL_def API_SENT_EMAIL_URL_def)
qed

text \<open>
  C3. \<^verbatim>\<open>login(c)\<close> issues a \<^verbatim>\<open>POST\<close> to the login path, \<^verbatim>\<open>/auth/login\<close>, whose body is
  \<open>c\<close> itself, and its promise is the transport's, a promise of a
  \<^verbatim>\<open>SuccessResponse<LoginResponse>\<close>; \<^verbatim>\<open>register(r)\<close> issues a \<^verbatim>\<open>POST\<close> to the register
  path, \<^verbatim>\<open>/auth/register\<close>, whose body is \<open>r\<close> itself, and its promise is the
  transport's, a promise of a \<^verbatim>\<open>SuccessResponse<RegisterReponse>\<close>.
\<close>

theorem login_register_post_body:
  "issued (login (traced ax1) c) w1 = [POST ''/auth/login'' (Some c)] \<and>
   (login ax1 c s1 :: ('User LoginResponse SuccessResponse, 'e1) Promise \<times> 's1) =
     post ax1 ''/auth/login'' (Some c) s1 \<and>
   issued (register (traced ax2) r) w2 = [POST ''/auth/register'' (Some r)] \<and>
   (register ax2 r s2 :: (RegisterReponse SuccessResponse, 'e2) Promise \<times> 's2) =
     post ax2 ''/auth/register'' (Some r) s2"
proof (intro conjI)
  show "issued (login (traced ax1) c) w1 = [POST ''/auth/login'' (Some c)]"
    using issued_login [of ax1 c w1] by (simp add: API_LOGIN_URL_def)
  show "login ax1 c s1 = post ax1 ''/auth/login'' (Some c) s1"
    by (simp add: login_def API_LOGIN_URL_def)
  show "issued (register (traced ax2) r) w2 = [POST ''/auth/register'' (Some r)]"
    using issued_register [of ax2 r w2] by (simp add: API_REGISTER_URL_def)
  show "register ax2 r s2 = post ax2 ''/auth/register'' (Some r) s2"
    by (simp add: register_def API_REGISTER_URL_def)
qed

text \<open>
  C4. \<^verbatim>\<open>logout()\<close> has no argument; it issues a \<^verbatim>\<open>POST\<close> to the logout path,
  \<^verbatim>\<open>/auth/logout\<close>, with no body, and its promise is the transport's, a promise of a
  \<^verbatim>\<open>SuccessResponse<null>\<close>.
\<close>

theorem logout_post_no_body:
  "issued (logout (traced ax)) w = [POST ''/auth/logout'' None] \<and>
   (logout ax s :: (null SuccessResponse, 'e) Promise \<times> 's) =
     post ax ''/auth/logout'' None s"
proof
  show "issued (logout (traced ax)) w = [POST ''/auth/logout'' None]"
    using issued_logout [of ax w] by (simp add: API_LOGOUT_URL_def)
  show "logout ax s = post ax ''/auth/logout'' None s"
    by (simp add: logout_def API_LOGOUT_URL_def)
qed

text \<open>
  C5. For every code \<open>c\<close>, \<^verbatim>\<open>loginWithGG({code: c})\<close> issues a \<^verbatim>\<open>GET\<close> to the Google-callback
  path, \<^verbatim>\<open>/auth/google/callback\<close>, with \<open>c\<close> as the query parameter \<^verbatim>\<open>code\<close>, and its
  promise is the transport's, a promise of a \<^verbatim>\<open>SuccessResponse<LoginResponse>\<close>.
\<close>

theorem loginWithGG_code_query_parameter:
  "issued (loginWithGG (traced ax) \<lparr>code = c\<rparr>) w =
     [GET ''/auth/google/callback'' \<lparr>params = \<lparr>code = c\<rparr>\<rparr>] \<and>
   (loginWithGG ax \<lparr>code = c\<rparr> s ::
       ('User LoginResponse SuccessResponse, 'e) Promise \<times> 's) =
     get ax ''/auth/google/callback'' \<lparr>params = \<lparr>code = c\<rparr>\<rparr> s"
proof
  show "issued (loginWithGG (traced ax) \<lparr>code = c\<rparr>) w =
      [GET ''/auth/google/callback'' \<lparr>params = \<lparr>code = c\<rparr>\<rparr>]"
    using issued_loginWithGG [of ax "\<lparr>code = c\<rparr>" w] by (simp add: API_LOGIN_GOOGLE_def)
  show "loginWithGG ax \<lparr>code = c\<rparr> s =
      get ax ''/auth/google/callback'' \<lparr>params = \<lparr>code = c\<rparr>\<rparr> s"
    by (simp add: loginWithGG_def API_LOGIN_GOOGLE_def)
qed

section \<open>Responses and failures\<close>

text \<open>
  C6. Whatever response \<open>r\<close> the transport fulfils the request of \<^verbatim>\<open>login\<close> with, the promise
  of \<^verbatim>\<open>login\<close> is fulfilled with \<open>r\<close> itself. The instance below is the response
  \<^verbatim>\<open>{data: {access_token: "t1", refresh_token: "t2"}}\<close>.
\<close>

theorem login_returns_response_unchanged:
  assumes "post ax API_LOGIN_URL (Some c) s = (Fulfilled r, s')"
  shows "login ax c s = (Fulfilled r, s')"
  using assms by (simp add: login_def)

theorem login_returns_response_unchanged_witness:
  "post (fulfilling \<lparr>SuccessResponse.data =
        \<lparr>access_token = ''t1'', refresh_token = ''t2'', token_type = None, user = None\<rparr>,
      SuccessResponse.message = None, SuccessResponse.status = None\<rparr>)
      API_LOGIN_URL (Some (''a@b.com'', ''secret'')) () =
     (Fulfilled \<lparr>SuccessResponse.data =
        \<lparr>access_token = ''t1'', refresh_token = ''t2'', token_type = None, user = None\<rparr>,
      SuccessResponse.message = None, SuccessResponse.status = None\<rparr>, ()) \<and>
   login (fulfilling \<lparr>SuccessResponse.data =
        \<lparr>access_token = ''t1'', refresh_token = ''t2'', token_type = None, user = None\<rparr>,
      SuccessResponse.message = None, SuccessResponse.status = None\<rparr>)
      (''a@b.com'', ''secret'') () =
     (Fulfilled \<lparr>SuccessResponse.data =
        \<lparr>access_token = ''t1'', refresh_token = ''t2'', token_type = None, user = None\<rparr>,
      SuccessResponse.message = None, SuccessResponse.status = None\<rparr>, ())"
proof -
  let ?r = "\<lparr>SuccessResponse.data =
        \<lparr>access_token = ''t1'', refresh_token = ''t2'', token_type = None, user = None\<rparr>,
      SuccessResponse.message = None, SuccessResponse.status = None\<rparr>"
  have h: "post (fulfilling ?r) API_LOGIN_URL (Some (''a@b.com'', ''secret'')) () =
      (Fulfilled ?r, ())"
    by (rule post_fulfilling)
  from h login_returns_response_unchanged [OF h] show ?thesis
    by (rule conjI)
qed

text \<open>
  C7. For each of the six operations: when the transport rejects the promise of the
  operation's request with \<open>e\<close>, the promise of the operation is rejected with \<open>e\<close>, the
  state is the one the transport left, and the log holds that one request and no other.
  Nothing is caught, tried again or put in the place of the failure.
\<close>

theorem rejection_propagates:
  "(post ax1 API_LOGIN_URL (Some c) s1 = (Rejected e1, s1') \<longrightarrow>
      login (traced ax1) c (s1, log1) =
        (Rejected e1, s1', log1 @ [POST API_LOGIN_URL (Some c)])) \<and>
   (post ax2 API_REGISTER_URL (Some r) s2 = (Rejected e2, s2') \<longrightarrow>
      register (traced ax2) r (s2, log2) =
        (Rejected e2, s2', log2 @ [POST API_REGISTER_URL (Some r)])) \<and>
   (get ax3 API_RESET_PASS_URL \<lparr>params = p3\<rparr> s3 = (Rejected e3, s3') \<longrightarrow>
      resetPassword (traced ax3) p3 (s3, log3) =
        (Rejected e3, s3', log3 @ [GET API_RESET_PASS_URL \<lparr>params = p3\<rparr>])) \<and>
   (get ax4 API_SENT_EMAIL_URL \<lparr>params = p4\<rparr> s4 = (Rejected e4, s4') \<longrightarrow>
      sentEmailAuth (traced ax4) p4 (s4, log4) =
        (Rejected e4, s4', log4 @ [GET API_SENT_EMAIL_URL \<lparr>params = p4\<rparr>])) \<and>
   (post ax5 API_LOGOUT_URL None s5 = (Rejected e5, s5') \<longrightarrow>
      logout (traced ax5) (s5, log5) = (Rejected e5, s5', log5 @ [POST API_LOGOUT_URL None])) \<and>
   (get ax6 API_LOGIN_GOOGLE \<lparr>params = p6\<rparr> s6 = (Rejected e6, s6') \<longrightarrow>
      loginWithGG (traced ax6) p6 (s6, log6) =
        (Rejected e6, s6', log6 @ [GET API_LOGIN_GOOGLE \<lparr>params = p6\<rparr>]))"
proof (intro conjI impI)
  assume "post ax1 API_LOGIN_URL (Some c) s1 = (Rejected e1, s1')"
  then show "login (traced ax1) c (s1, log1) =
      (Rejected e1, s1', log1 @ [POST API_LOGIN_URL (Some c)])"
    by (rule login_traced)
next
  assume "post ax2 API_REGISTER_URL (Some r) s2 = (Rejected e2, s2')"
  then show "register (traced ax2) r (s2, log2) =
      (Rejected e2, s2', log2 @ [POST API_REGISTER_URL (Some r)])"
    by (rule register_traced)
next
  assume "get ax3 API_RESET_PASS_URL \<lparr>params = p3\<rparr> s3 = (Rejected e3, s3')"
  then show "resetPassword (traced ax3) p3 (s3, log3) =
      (Rejected e3, s3', log3 @ [GET API_RESET_PASS_URL \<lparr>params = p3\<rparr>])"
    by (rule resetPassword_traced)
next
  assume "get ax4 API_SENT_EMAIL_URL \<lparr>params = p4\<rparr> s4 = (Rejected e4, s4')"
  then show "sentEmailAuth (traced ax4) p4 (s4, log4) =
      (Rejected e4, s4', log4 @ [GET API_SENT_EMAIL_URL \<lparr>params = p4\<rparr>])"
    by (rule sentEmailAuth_traced)
next
  assume "post ax5 API_LOGOUT_URL None s5 = (Rejected e5, s5')"
  then show "logout (traced ax5) (s5, log5) =
      (Rejected e5, s5', log5 @ [POST API_LOGOUT_URL None])"
    by (rule logout_traced)
next
  assume "get ax6 API_LOGIN_GOOGLE \<lparr>params = p6\<rparr> s6 = (Rejected e6, s6')"
  then show "loginWithGG (traced ax6) p6 (s6, log6) =
      (Rejected e6, s6', log6 @ [GET API_LOGIN_GOOGLE \<lparr>params = p6\<rparr>])"
    by (rule loginWithGG_traced)
qed

theorem rejection_propagates_witness:
  "post (rejecting ''Network Error'') API_LOGIN_URL (Some (''a@b.com'', ''secret'')) () =
     (Rejected ''Network Error'', ()) \<and>
   login (traced (rejecting ''Network Error'')) (''a@b.com'', ''secret'') ((), []) =
     (Rejected ''Network Error'', (), [POST API_LOGIN_URL (Some (''a@b.com'', ''secret''))]) \<and>
   post (rejecting ''Network Error'') API_REGISTER_URL (Some (''a@b.com'', ''secret'')) () =
     (Rejected ''Network Error'', ()) \<and>
   register (traced (rejecting ''Network Error'')) (''a@b.com'', ''secret'') ((), []) =
     (Rejected ''Network Error'', (),
      [POST API_REGISTER_URL (Some (''a@b.com'', ''secret''))]) \<and>
   get (rejecting ''Network Error'') API_RESET_PASS_URL
       \<lparr>params = \<lparr>resetPassword_params.email = Some ''a@b.com''\<rparr>\<rparr> () =
     (Rejected ''Network Error'', ()) \<and>
   resetPassword (traced (rejecting ''Network Error''))
       \<lparr>resetPassword_params.email = Some ''a@b.com''\<rparr> ((), []) =
     (Rejected ''Network Error'', (),
      [GET API_RESET_PASS_URL
        \<lparr>params = \<lparr>resetPassword_params.email = Some ''a@b.com''\<rparr>\<rparr>]) \<and>
   get (rejecting ''Network Error'') API_SENT_EMAIL_URL
       \<lparr>params = \<lparr>sentEmailAuth_params.email = ''a@b.com''\<rparr>\<rparr> () =
     (Rejected ''Network Error'', ()) \<and>
   sentEmailAuth (traced (rejecting ''Network Error''))
       \<lparr>sentEmailAuth_params.email = ''a@b.com''\<rparr> ((), []) =
     (Rejected ''Network Error'', (),
      [GET API_SENT_EMAIL_URL \<lparr>params = \<lparr>sentEmailAuth_params.email = ''a@b.com''\<rparr>\<rparr>]) \<and>
   post (rejecting ''Network Error'') API_LOGOUT_URL None () =
     (Rejected ''Network Error'', ()) \<and>
   logout (traced (rejecting ''Network Error'')) ((), []) =
     (Rejected ''Network Error'', (), [POST API_LOGOUT_URL None]) \<and>
   get (rejecting ''Network Error'') API_LOGIN_GOOGLE \<lparr>params = \<lparr>code = ''4/0AX4''\<rparr>\<rparr> () =
     (Rejected ''Network Error'', ()) \<and>
   loginWithGG (traced (rejecting ''Network Error'')) \<lparr>code = ''4/0AX4''\<rparr> ((), []) =
     (Rejected ''Network Error'', (),
      [GET API_LOGIN_GOOGLE \<lparr>params = \<lparr>code = ''4/0AX4''\<rparr>\<rparr>])"
proof -
  let ?e = "''Network Error''"
  note t = rejection_propagates
    [where ?ax1.0 = "rejecting ?e" and ?s1.0 = "()" and ?e1.0 = ?e and ?s1' = "()"
       and ?c = "(''a@b.com'', ''secret'')" and ?log1.0 = "[]"
       and ?ax2.0 = "rejecting ?e" and ?s2.0 = "()" and ?e2.0 = ?e and ?s2' = "()"
       and ?r = "(''a@b.com'', ''secret'')" and ?log2.0 = "[]"
       and ?ax3.0 = "rejecting ?e" and ?s3.0 = "()" and ?e3.0 = ?e and ?s3' = "()"
       and ?p3.0 = "\<lparr>resetPassword_params.email = Some ''a@b.com''\<rparr>" and ?log3.0 = "[]"
       and ?ax4.0 = "rejecting ?e" and ?s4.0 = "()" and ?e4.0 = ?e and ?s4' = "()"
       and ?p4.0 = "\<lparr>sentEmailAuth_params.email = ''a@b.com''\<rparr>" and ?log4.0 = "[]"
       and ?ax5.0 = "rejecting ?e" and ?s5.0 = "()" and ?e5.0 = ?e and ?s5' = "()"
       and ?log5.0 = "[]"
       and ?ax6.0 = "rejecting ?e" and ?s6.0 = "()" and ?e6.0 = ?e and ?s6' = "()"
       and ?p6.0 = "\<lparr>code = ''4/0AX4''\<rparr>" and ?log6.0 = "[]"]
  show ?thesis
    using t by (simp add: get_rejecting post_rejecting)
qed

text \<open>
  C8. The operations keep no state of their own. The request an operation issues is the
  same for the same argument, whatever the transport, whatever state earlier calls have
  left it in, and whatever they have written to the log: it is made of the argument
  and the path of the operation and of nothing else.
\<close>

theorem requests_depend_on_arguments_only:
  "issued (login (traced ax1) c) w1 = issued (login (traced ax1') c) w1' \<and>
   issued (register (traced ax2) r) w2 = issued (register (traced ax2') r) w2' \<and>
   issued (resetPassword (traced ax3) p3) w3 = issued (resetPassword (traced ax3') p3) w3' \<and>
   issued (sentEmailAuth (traced ax4) p4) w4 = issued (sentEmailAuth (traced ax4') p4) w4' \<and>
   issued (logout (traced ax5)) w5 = issued (logout (traced ax5')) w5' \<and>
   issued (loginWithGG (traced ax6) p6) w6 = issued (loginWithGG (traced ax6') p6) w6'"
  by (simp only: issued_login issued_register issued_resetPassword issued_sentEmailAuth
      issued_logout issued_loginWithGG simp_thms)

section \<open>Optional properties\<close>

text \<open>
  A property that is required makes the difference: the empty object is no
  \<^verbatim>\<open>SuccessResponse\<close>, whose \<^verbatim>\<open>data\<close> must be there.
\<close>

lemma empty_object_is_no_SuccessResponse: "as_SuccessResponse T (Object Map.empty) = None"
  by (simp add: as_SuccessResponse_def required_def)

text \<open>
  C9. Every property of \<^verbatim>\<open>PaginationResponse\<close> and of \<^verbatim>\<open>FailResponse<T>\<close> is optional: the
  empty object \<^verbatim>\<open>{}\<close> is an instance of \<^verbatim>\<open>PaginationResponse\<close>, and of \<^verbatim>\<open>FailResponse<T>\<close>
  for any \<^verbatim>\<open>T\<close>, with no field set.
\<close>

theorem empty_object_is_instance:
  "as_PaginationResponse (Object Map.empty) =
     Some \<lparr>PaginationResponse.page = None, PaginationResponse.size = None,
       PaginationResponse.total = None, PaginationResponse.totalPages = None\<rparr> \<and>
   as_FailResponse T (Object Map.empty) =
     Some \<lparr>FailResponse.status = None, FailResponse.error = None,
       FailResponse.message = None, FailResponse.data = None\<rparr>"
proof -
  have absent: "optional U Map.empty k = Some None" for U :: "any \<Rightarrow> 'b option" and k
    by (simp add: optional_def)
  show ?thesis
    by (simp add: as_PaginationResponse_def as_FailResponse_def absent)
qed

text \<open>
  C10. The email of \<^verbatim>\<open>resetPassword\<close> is optional and that of \<^verbatim>\<open>sentEmailAuth\<close> is required:
  \<^verbatim>\<open>{}\<close> and \<^verbatim>\<open>{email: undefined}\<close> are arguments of \<^verbatim>\<open>resetPassword\<close>, with no email, and
  \<^verbatim>\<open>{}\<close> is no argument of \<^verbatim>\<open>sentEmailAuth\<close>. Called with no email, \<^verbatim>\<open>resetPassword\<close> issues
  a \<^verbatim>\<open>GET\<close> to the reset-password path whose query parameters hold no email.
\<close>

theorem resetPassword_without_email:
  "as_resetPassword_params (Object Map.empty) = Some \<lparr>resetPassword_params.email = None\<rparr> \<and>
   as_resetPassword_params (Object [''email'' \<mapsto> Undefined]) =
     Some \<lparr>resetPassword_params.email = None\<rparr> \<and>
   as_sentEmailAuth_params (Object Map.empty) = None \<and>
   issued (resetPassword (traced ax) \<lparr>resetPassword_params.email = None\<rparr>) w =
     [GET ''/auth/email/reset-password''
       \<lparr>params = \<lparr>resetPassword_params.email = None\<rparr>\<rparr>]"
proof (intro conjI)
  show "as_resetPassword_params (Object Map.empty) =
      Some \<lparr>resetPassword_params.email = None\<rparr>"
    by (simp add: as_resetPassword_params_def optional_def)
  show "as_resetPassword_params (Object [''email'' \<mapsto> Undefined]) =
      Some \<lparr>resetPassword_params.email = None\<rparr>"
    by (simp add: as_resetPassword_params_def optional_def)
  show "as_sentEmailAuth_params (Object Map.empty) = None"
    by (simp add: as_sentEmailAuth_params_def required_def)
  show "issued (resetPassword (traced ax) \<lparr>resetPassword_params.email = None\<rparr>) w =
      [GET ''/auth/email/reset-password''
        \<lparr>params = \<lparr>resetPassword_params.email = None\<rparr>\<rparr>]"
    by (simp add: issued_resetPassword API_RESET_PASS_URL_def)
qed

end
